theory Spec2Isabelle
  imports Main "HOL-Library.Word"
begin

section \<open>Thrown values\<close>

text \<open>
  JavaScript strings are modelled as \<open>string\<close>; the empty string is the falsy one. A
  variable that may be \<open>undefined\<close> (an unset environment variable, an absent header) is
  a \<open>string option\<close>. A Node \<open>Buffer\<close> is a list of bytes.

  A value that is thrown, or with which a promise is rejected, is either an \<open>Error\<close>
  object, which has a \<open>message\<close> property, or one of the two plain objects with which
  \<open>sendWebhookMessage\<close> rejects, which have none.
\<close>

type_synonym buffer = "8 word list"

datatype thrown =
    ErrorObj string
  | HttpStatusReject nat string
  | RequestErrorReject string

fun message_of :: "thrown \<Rightarrow> string option" where
  "message_of (ErrorObj m) = Some m"
| "message_of (HttpStatusReject statusCode response) = None"
| "message_of (RequestErrorReject err) = None"

definition truthy :: "string option \<Rightarrow> bool" where
  "truthy v = (case v of None \<Rightarrow> False | Some s \<Rightarrow> s \<noteq> [])"

section \<open>Node primitives used by the verifier\<close>

text \<open>
  \<open>hmac.digest('hex')\<close>: two lower-case hexadecimal digits per byte of the digest.
\<close>

definition hex_digit :: "nat \<Rightarrow> char" where
  "hex_digit n = ''0123456789abcdef'' ! (n mod 16)"

definition hex_of_byte :: "8 word \<Rightarrow> string" where
  "hex_of_byte b = [hex_digit (unat b div 16), hex_digit (unat b mod 16)]"

definition digest_hex :: "buffer \<Rightarrow> string" where
  "digest_hex bs = concat (map hex_of_byte bs)"

text \<open>
  \<open>Buffer.from(s, 'hex')\<close>: pairs of hexadecimal digits are decoded from the left;
  decoding stops at the first pair that is not two hexadecimal digits, and a trailing
  single character is dropped. It never throws.
\<close>

definition unhex :: "char \<Rightarrow> nat option" where
  "unhex c =
     (let n = (of_char c :: nat) in
      if 48 \<le> n \<and> n \<le> 57 then Some (n - 48)
      else if 97 \<le> n \<and> n \<le> 102 then Some (n - 87)
      else if 65 \<le> n \<and> n \<le> 70 then Some (n - 55)
      else None)"

fun Buffer_from_hex :: "string \<Rightarrow> buffer" where
  "Buffer_from_hex (a # b # rest) =
     (case unhex a of
        None \<Rightarrow> []
      | Some hi \<Rightarrow>
         (case unhex b of
            None \<Rightarrow> []
          | Some lo \<Rightarrow> word_of_nat (16 * hi + lo) # Buffer_from_hex rest))"
| "Buffer_from_hex [a] = []"
| "Buffer_from_hex [] = []"

text \<open>
  \<open>Buffer.from(s)\<close>: the UTF-8 bytes of the string. A \<open>char\<close> stands for a code unit
  below 256; those below 128 are one byte, the others two.
\<close>

definition utf8_of_char :: "char \<Rightarrow> buffer" where
  "utf8_of_char c =
     (let n = (of_char c :: nat) in
      if n < 128 then [word_of_nat n]
      else [word_of_nat (192 + n div 64), word_of_nat (128 + n mod 64)])"

definition Buffer_from :: "string \<Rightarrow> buffer" where
  "Buffer_from s = concat (map utf8_of_char s)"

text \<open>
  \<open>crypto.timingSafeEqual(a, b)\<close> throws a \<open>RangeError\<close> when the two buffers have
  different byte lengths, and otherwise tells whether they are equal.
\<close>

definition timingSafeEqual :: "buffer \<Rightarrow> buffer \<Rightarrow> thrown + bool" where
  "timingSafeEqual a b =
     (if length a \<noteq> length b
      then Inl (ErrorObj ''Input buffers must have the same byte length'')
      else Inr (a = b))"

text \<open>\<open>s.replace(/^sha256=/, '')\<close>\<close>

definition strip_sha256 :: "string \<Rightarrow> string" where
  "strip_sha256 s = (if take 7 s = ''sha256='' then drop 7 s else s)"

section \<open>utils/verifier: generateSignature and verifySignature\<close>

text \<open>
  The keyed digest \<open>crypto.createHmac('sha256', secret).update(payload).digest()\<close>
  belongs to Node; it is the parameter \<open>hmac\<close>, applied to the secret and the payload,
  and nothing is assumed about it.

  \<open>generateSignature\<close> throws for a payload that is not a string (excluded here by the
  type) and for an empty secret.
\<close>

definition generateSignature ::
  "(string \<Rightarrow> string \<Rightarrow> buffer) \<Rightarrow> string \<Rightarrow> string \<Rightarrow> thrown + string" where
  "generateSignature hmac payload secret =
     (if secret = [] then Inl (ErrorObj ''Secret must be a non-empty string.'')
      else Inr (''sha256='' @ digest_hex (hmac secret payload)))"

definition verifySignature ::
  "(string \<Rightarrow> string \<Rightarrow> buffer) \<Rightarrow> string \<Rightarrow> string \<Rightarrow> string \<Rightarrow> thrown + bool" where
  "verifySignature hmac payload signature secret =
     (if payload = [] \<or> signature = [] \<or> secret = [] then Inr False
      else
        (case generateSignature hmac payload secret of
           Inl e \<Rightarrow> Inl e
         | Inr expectedSignature \<Rightarrow>
            (let expected = strip_sha256 expectedSignature;
                 received = strip_sha256 signature;
                 expectedBuffer = Buffer_from_hex expected;
                 receivedBuffer = Buffer_from_hex received
             in if length expectedBuffer \<noteq> length receivedBuffer then Inr False
                else timingSafeEqual expectedBuffer receivedBuffer)))"

section \<open>The second signature module (unnamed part 001)\<close>

text \<open>
  This module has functions of the same two names. Its \<open>generateSignature\<close> does not
  check the secret, and its \<open>verifySignature\<close> compares the UTF-8 bytes of the two
  signature strings with no length check of its own. The payload is a string here, so
  the \<open>JSON.stringify\<close> branch of \<open>generateSignature\<close> is not taken.
\<close>

definition generateSignature_part_001 ::
  "(string \<Rightarrow> string \<Rightarrow> buffer) \<Rightarrow> string \<Rightarrow> string \<Rightarrow> string" where
  "generateSignature_part_001 hmac payload secret =
     ''sha256='' @ digest_hex (hmac secret payload)"

definition verifySignature_part_001 ::
  "(string \<Rightarrow> string \<Rightarrow> buffer) \<Rightarrow> string \<Rightarrow> string \<Rightarrow> string \<Rightarrow> thrown + bool" where
  "verifySignature_part_001 hmac payload signature secret =
     (if payload = [] \<or> signature = [] \<or> secret = [] then Inr False
      else
        (let expectedSignature = ''sha256='' @ digest_hex (hmac secret payload)
         in timingSafeEqual (Buffer_from signature) (Buffer_from expectedSignature)))"

section \<open>utils/verifier: raw-body capture and the verification middleware\<close>

text \<open>
  The environment variables the code reads, each possibly unset.
\<close>

record process_env =
  MCP_WEBHOOK_SIGNING_SECRET :: "string option"
  SLACK_CHANNEL :: "string option"
  SLACK_WEBHOOK_URL :: "string option"

text \<open>
  A value produced by \<open>JSON.parse\<close>. A number is kept as the text JavaScript prints for
  it; an object is the list of its own members.
\<close>

datatype json =
    JNull
  | JBool bool
  | JNumber string
  | JString string
  | JArray "json list"
  | JObject "(string \<times> json) list"

text \<open>
  Conversion to a string, as a template literal \<open>`${v}`\<close> does it. An array joins the
  conversions of its elements with commas, \<open>null\<close> elements giving the empty string.
  An object without an own member \<open>toString\<close> inherits the method that answers
  \<open>[object Object]\<close>. With such a member, whose value cannot be a function, neither
  \<open>toString\<close> nor \<open>valueOf\<close> yields a primitive and a \<open>TypeError\<close> is thrown.
  An absent field is \<open>undefined\<close>.
\<close>

fun join_comma :: "string list \<Rightarrow> string" where
  "join_comma [] = []"
| "join_comma [s] = s"
| "join_comma (s # t # ss) = s @ '','' @ join_comma (t # ss)"

fun ToString :: "json \<Rightarrow> thrown + string"
  and ToString_elements :: "json list \<Rightarrow> thrown + string list" where
  "ToString JNull = Inr ''null''"
| "ToString (JBool b) = Inr (if b then ''true'' else ''false'')"
| "ToString (JNumber t) = Inr t"
| "ToString (JString s) = Inr s"
| "ToString (JArray xs) =
     (case ToString_elements xs of
        Inl e \<Rightarrow> Inl e
      | Inr ss \<Rightarrow> Inr (join_comma ss))"
| "ToString (JObject members) =
     (if ''toString'' \<in> set (map fst members)
      then Inl (ErrorObj ''Cannot convert object to primitive value'')
      else Inr ''[object Object]'')"
| "ToString_elements [] = Inr []"
| "ToString_elements (x # xs) =
     (case (if x = JNull then Inr [] else ToString x) of
        Inl e \<Rightarrow> Inl e
      | Inr s \<Rightarrow>
         (case ToString_elements xs of
            Inl e \<Rightarrow> Inl e
          | Inr ss \<Rightarrow> Inr (s # ss)))"

definition template_literal :: "json option \<Rightarrow> thrown + string" where
  "template_literal v = (case v of None \<Rightarrow> Inr ''undefined'' | Some x \<Rightarrow> ToString x)"

text \<open>
  A request carries the value of \<open>req.get('MCP-Signature')\<close>, the captured
  \<open>req.rawBody\<close> (unset until the capture callback sets it) and the parsed \<open>req.body\<close>,
  whose three fields may each be absent. The body parser yields an object or an array
  for every body it accepts, so reading the three fields does not throw.
\<close>

record mcp_body =
  eventType :: "json option"
  eventDateTime :: "json option"
  eventData :: "json option"

record request =
  header_MCP_Signature :: "string option"
  rawBody :: "string option"
  body :: mcp_body

text \<open>
  \<open>getExpressVerifyCallback()\<close> returns the callback
  \<open>(req, res, buf, encoding)\<close> that the body parser calls with the bytes it has read.
  \<open>buf.toString\<close> belongs to Node: it is the parameter \<open>toString\<close>, applied to the
  encoding name and the bytes.
\<close>

definition getExpressVerifyCallback ::
  "(string \<Rightarrow> buffer \<Rightarrow> string) \<Rightarrow> request \<Rightarrow> buffer \<Rightarrow> string option \<Rightarrow> request" where
  "getExpressVerifyCallback toString req buf encoding =
     (if buf \<noteq> []
      then req\<lparr>rawBody :=
             Some (toString (case encoding of
                               None \<Rightarrow> ''utf8''
                             | Some e \<Rightarrow> if e = [] then ''utf8'' else e) buf)\<rparr>
      else req)"

text \<open>
  The middleware either sends a response and stops, or calls \<open>next()\<close>, or lets an
  exception of \<open>verifySignature\<close> escape.
\<close>

datatype middleware_result = Responded nat string | Next | Threw thrown

definition mcpVerifyMiddleware ::
  "(string \<Rightarrow> string \<Rightarrow> buffer) \<Rightarrow> process_env \<Rightarrow> request \<Rightarrow> middleware_result" where
  "mcpVerifyMiddleware hmac env req =
     (case MCP_WEBHOOK_SIGNING_SECRET env of
        None \<Rightarrow> Responded 500 ''Webhook signing secret not configured.''
      | Some secret \<Rightarrow>
         if secret = [] then Responded 500 ''Webhook signing secret not configured.''
         else
          (case header_MCP_Signature req of
             None \<Rightarrow> Responded 400 ''Missing signature header.''
           | Some signatureHeader \<Rightarrow>
              if signatureHeader = [] then Responded 400 ''Missing signature header.''
              else
               (case rawBody req of
                  None \<Rightarrow> Responded 500 ''Raw request body not available for verification.''
                | Some raw \<Rightarrow>
                   if raw = []
                   then Responded 500 ''Raw request body not available for verification.''
                   else
                    (case verifySignature hmac raw signatureHeader secret of
                       Inl e \<Rightarrow> Threw e
                     | Inr isValid \<Rightarrow>
                        if isValid then Next
                        else Responded 401 ''Invalid signature.''))))"

section \<open>utils/slackClient: sendWebhookMessage\<close>

text \<open>
  The rendered message, and the argument object built from it for both channels.
\<close>

record slack_message =
  fallbackText :: string
  message_blocks :: json
  message_attachments :: json

record slack_args =
  channel :: "string option"
  text_arg :: string
  blocks :: json
  attachments :: json

text \<open>
  What the HTTPS request of one call comes to: a response with a status code and a
  body, or an \<open>error\<close> event of the request. With an unset URL, \<open>url.parse\<close> throws a
  \<open>TypeError\<close> inside the promise executor before any request is made, and the promise
  is rejected with it.
\<close>

datatype http_outcome = HttpResponse nat string | HttpRequestError string

datatype webhook_ok = WebhookOk nat string

definition url_type_error :: string where
  "url_type_error =
     ''The '' @ [CHR 0x22] @ ''url'' @ [CHR 0x22]
       @ '' argument must be of type string. Received undefined''"

definition sendWebhookMessage ::
  "string option \<Rightarrow> slack_args \<Rightarrow> http_outcome \<Rightarrow> thrown + webhook_ok" where
  "sendWebhookMessage webhookUrl message outcome =
     (case webhookUrl of
        None \<Rightarrow> Inl (ErrorObj url_type_error)
      | Some u \<Rightarrow>
         (case outcome of
            HttpResponse statusCode responseData \<Rightarrow>
              if 200 \<le> statusCode \<and> statusCode < 300
              then Inr (WebhookOk statusCode responseData)
              else Inl (HttpStatusReject statusCode responseData)
          | HttpRequestError m \<Rightarrow> Inl (RequestErrorReject m)))"

section \<open>utils/formatters: formatSlackMessage\<close>

text \<open>
  \<open>formatSlackMessage\<close> first formats the date and builds the carrier, customer and
  context sections, which throws when the event data lack a carrier or a customer. Its
  \<open>switch\<close> then compares \<open>eventType\<close> with six strings by strict equality and
  calls the formatter of that event, none of which reads \<open>eventType\<close>; for any other
  value it calls \<open>formatDefaultMessage\<close>, whose first statement converts \<open>eventType\<close>
  to a string for the header. What the sections and the messages contain is left to
  three parameters (the arguments \<open>eventType\<close>, \<open>eventDateTime\<close> and \<open>eventData\<close>
  are written \<open>evType\<close>, \<open>evDateTime\<close> and \<open>evData\<close>, the full names being the
  fields of the parsed body): \<open>common_sections\<close> for the part before the \<open>switch\<close>,
  \<open>format_event\<close> for the six formatters, selected by the event type, and
  \<open>default_message\<close> for the rest of \<open>formatDefaultMessage\<close>, given the converted
  event type.
\<close>

record formatters =
  common_sections :: "json option \<Rightarrow> json option \<Rightarrow> thrown + json"
  format_event :: "string \<Rightarrow> json \<Rightarrow> json option \<Rightarrow> thrown + slack_message"
  default_message :: "string \<Rightarrow> json \<Rightarrow> json option \<Rightarrow> thrown + slack_message"

definition event_types :: "string list" where
  "event_types =
     [''carrier.packet.completed'',
      ''carrier.incident_report.created'',
      ''carrier.incident_report.updated'',
      ''carrier.incident_report.retracted'',
      ''carrier.vin_verification.completed'',
      ''carrier.user_verification.completed'']"

definition formatDefaultMessage ::
  "formatters \<Rightarrow> json option \<Rightarrow> json \<Rightarrow> json option \<Rightarrow> thrown + slack_message" where
  "formatDefaultMessage fmt evType sections evData =
     (case template_literal evType of
        Inl e \<Rightarrow> Inl e
      | Inr header \<Rightarrow> default_message fmt header sections evData)"

fun switch_case :: "json option \<Rightarrow> string option" where
  "switch_case (Some (JString t)) = (if t \<in> set event_types then Some t else None)"
| "switch_case v = None"

definition formatSlackMessage ::
  "formatters \<Rightarrow> json option \<Rightarrow> json option \<Rightarrow> json option \<Rightarrow> thrown + slack_message" where
  "formatSlackMessage fmt evType evDateTime evData =
     (case common_sections fmt evDateTime evData of
        Inl e \<Rightarrow> Inl e
      | Inr sections \<Rightarrow>
         (case switch_case evType of
            Some t \<Rightarrow> format_event fmt t sections evData
          | None \<Rightarrow> formatDefaultMessage fmt evType sections evData))"

section \<open>The webhook route (unnamed part 000)\<close>

text \<open>
  The outside world of one request: what \<open>slackApp.client.chat.postMessage\<close> comes to,
  and what the \<open>n\<close>-th HTTPS request of \<open>sendWebhookMessage\<close> comes to.
\<close>

record world =
  chat_postMessage :: "slack_args \<Rightarrow> thrown + unit"
  https_request :: "nat \<Rightarrow> http_outcome"

text \<open>
  What a request does, in order: the HTTP response it sends, the calls of
  \<open>chat.postMessage\<close> and of \<open>sendWebhookMessage\<close>, and an exception handed to the
  framework. Console output is not recorded.
\<close>

datatype effect =
    Respond nat string
  | PostMessage slack_args
  | SendWebhook "string option" slack_args
  | Unhandled thrown

text \<open>
  The body of the inner \<open>try\<close>: the flag is read once; the effects so far and the
  outcome of the awaited call are returned.
\<close>

definition try_block ::
  "world \<Rightarrow> process_env \<Rightarrow> bool \<Rightarrow> slack_args \<Rightarrow> effect list \<times> (thrown + unit)" where
  "try_block w env socketModeConnected args =
     (if socketModeConnected
      then ([PostMessage args], chat_postMessage w args)
      else ([SendWebhook (SLACK_WEBHOOK_URL env) args],
            (case sendWebhookMessage (SLACK_WEBHOOK_URL env) args (https_request w 0) of
               Inl e \<Rightarrow> Inl e
             | Inr result \<Rightarrow> Inr ())))"

text \<open>
  The \<open>catch (slackError)\<close> block; \<open>n\<close> is the number of HTTPS requests made so far.
  Both outcomes of the backup call are only logged.
\<close>

definition catch_block ::
  "world \<Rightarrow> process_env \<Rightarrow> nat \<Rightarrow> slack_args \<Rightarrow> thrown \<Rightarrow> effect list" where
  "catch_block w env n args slackError =
     (if message_of slackError \<noteq> Some ''webhook fallback already used''
      then
        (case sendWebhookMessage (SLACK_WEBHOOK_URL env) args (https_request w n) of
           Inr result \<Rightarrow> [SendWebhook (SLACK_WEBHOOK_URL env) args]
         | Inl webhookError \<Rightarrow> [SendWebhook (SLACK_WEBHOOK_URL env) args])
      else [])"

text \<open>
  The object literal passed to both channels:
  \<open>{channel: process.env.SLACK_CHANNEL, text: message.fallbackText,
  blocks: message.blocks, attachments: message.attachments}\<close>.
\<close>

definition slack_args_of :: "process_env \<Rightarrow> slack_message \<Rightarrow> slack_args" where
  "slack_args_of env message =
     \<lparr>channel = SLACK_CHANNEL env, text_arg = fallbackText message,
      blocks = message_blocks message, attachments = message_attachments message\<rparr>"

text \<open>
  The handler of the route. Before it responds it logs the event type through a
  template literal; when that conversion throws, the outer \<open>catch\<close> only logs and no
  response is sent. After the response, an exception of \<open>formatSlackMessage\<close> is
  caught by the outer \<open>catch\<close> as well. The later log lines convert the same event
  type again, which then cannot throw.
\<close>

definition webhook_handler ::
  "formatters \<Rightarrow> world \<Rightarrow> process_env \<Rightarrow> bool \<Rightarrow> request \<Rightarrow> effect list" where
  "webhook_handler fmt w env socketModeConnected req =
     (case template_literal (eventType (body req)) of
        Inl error \<Rightarrow> []
      | Inr logged \<Rightarrow>
         Respond 200 ''Webhook received'' #
         (case formatSlackMessage fmt (eventType (body req)) (eventDateTime (body req))
                 (eventData (body req)) of
            Inl error \<Rightarrow> []
          | Inr message \<Rightarrow>
             (let args = slack_args_of env message
              in case try_block w env socketModeConnected args of
                   (tried, Inr ok) \<Rightarrow> tried
                 | (tried, Inl slackError) \<Rightarrow>
                     tried @ catch_block w env (if socketModeConnected then 0 else 1)
                               args slackError)))"

definition post_webhook ::
  "(string \<Rightarrow> string \<Rightarrow> buffer) \<Rightarrow> formatters
     \<Rightarrow> world \<Rightarrow> process_env \<Rightarrow> bool \<Rightarrow> request \<Rightarrow> effect list" where
  "post_webhook hmac fmt w env socketModeConnected req =
     (case mcpVerifyMiddleware hmac env req of
        Responded status txt \<Rightarrow> [Respond status txt]
      | Next \<Rightarrow> webhook_handler fmt w env socketModeConnected req
      | Threw e \<Rightarrow> [Unhandled e])"

fun is_PostMessage :: "effect \<Rightarrow> bool" where
  "is_PostMessage (PostMessage a) = True"
| "is_PostMessage e = False"

fun is_SendWebhook :: "effect \<Rightarrow> bool" where
  "is_SendWebhook (SendWebhook u a) = True"
| "is_SendWebhook e = False"

fun is_Respond :: "effect \<Rightarrow> bool" where
  "is_Respond (Respond status txt) = True"
| "is_Respond e = False"

definition postMessage_calls :: "effect list \<Rightarrow> nat" where
  "postMessage_calls es = length (filter is_PostMessage es)"

definition webhook_calls :: "effect list \<Rightarrow> nat" where
  "webhook_calls es = length (filter is_SendWebhook es)"

section \<open>The connectivity flag (unnamed part 000)\<close>

text \<open>
  \<open>socketModeConnected\<close> is written by the callback registered with \<open>slackApp.error\<close>,
  by the four listeners on \<open>slackApp.client\<close>, and by the start-up function after
  \<open>await slackApp.start()\<close>; when that call fails the process exits with code 1.
\<close>

datatype signal =
    ErrorHandler
  | Connecting
  | Authenticated
  | Disconnecting
  | Reconnecting
  | StartResolved
  | StartRejected

datatype process_state = Running bool | Exited nat

definition initial_state :: process_state where
  "initial_state = Running False"

fun on_signal :: "process_state \<Rightarrow> signal \<Rightarrow> process_state" where
  "on_signal (Exited code) s = Exited code"
| "on_signal (Running socketModeConnected) ErrorHandler = Running False"
| "on_signal (Running socketModeConnected) Connecting = Running False"
| "on_signal (Running socketModeConnected) Authenticated = Running True"
| "on_signal (Running socketModeConnected) Disconnecting = Running False"
| "on_signal (Running socketModeConnected) Reconnecting = Running False"
| "on_signal (Running socketModeConnected) StartResolved = Running True"
| "on_signal (Running socketModeConnected) StartRejected = Exited 1"

definition run_signals :: "signal list \<Rightarrow> process_state" where
  "run_signals sigs = foldl on_signal initial_state sigs"

section \<open>Sample inputs\<close>

text \<open>
  Concrete inputs at which the theorems below are instantiated. \<open>sample_hmac\<close> stands
  in for the keyed digest of Node; \<open>zero_hmac\<close> is a second stand-in with a digest of
  32 bytes, the length of a SHA-256 digest; \<open>sample_toString\<close> stands in for
  \<open>buf.toString\<close> and reads each byte as one character.
\<close>

definition sample_hmac :: "string \<Rightarrow> string \<Rightarrow> buffer" where
  "sample_hmac secret payload = [0x12, 0xAB]"

definition zero_hmac :: "string \<Rightarrow> string \<Rightarrow> buffer" where
  "zero_hmac secret payload = replicate 32 0"

definition sample_toString :: "string \<Rightarrow> buffer \<Rightarrow> string" where
  "sample_toString encoding buf = map (\<lambda>b. char_of (unat b)) buf"

definition sample_env :: process_env where
  "sample_env =
     \<lparr>MCP_WEBHOOK_SIGNING_SECRET = Some ''key'', SLACK_CHANNEL = Some ''C0123456789'',
      SLACK_WEBHOOK_URL = Some ''https://hooks.slack.com/services/T/B/X''\<rparr>"

definition unconfigured_env :: process_env where
  "unconfigured_env =
     \<lparr>MCP_WEBHOOK_SIGNING_SECRET = None, SLACK_CHANNEL = Some ''C0123456789'',
      SLACK_WEBHOOK_URL = Some ''https://hooks.slack.com/services/T/B/X''\<rparr>"

definition sample_body :: mcp_body where
  "sample_body =
     \<lparr>eventType = Some (JString ''carrier.packet.completed''),
      eventDateTime = Some (JString ''2025-01-01T00:00:00.000Z''),
      eventData = Some (JObject [])\<rparr>"

definition signed_request :: request where
  "signed_request =
     \<lparr>header_MCP_Signature = Some ''sha256=12ab'', rawBody = Some ''{}'',
      body = sample_body\<rparr>"

definition badly_signed_request :: request where
  "badly_signed_request =
     \<lparr>header_MCP_Signature = Some ''sha256=00'', rawBody = Some ''{}'',
      body = sample_body\<rparr>"

definition unsigned_request :: request where
  "unsigned_request =
     \<lparr>header_MCP_Signature = None, rawBody = Some ''{}'', body = sample_body\<rparr>"

definition empty_body_request :: request where
  "empty_body_request =
     \<lparr>header_MCP_Signature = Some ''sha256=00'', rawBody = None,
      body = \<lparr>eventType = None, eventDateTime = None, eventData = None\<rparr>\<rparr>"

text \<open>
  A request with an empty body and no signature header, and a correctly signed request
  whose body is \<open>{"eventType":{"toString":1}}\<close>.
\<close>

definition empty_unsigned_request :: request where
  "empty_unsigned_request =
     \<lparr>header_MCP_Signature = None, rawBody = None,
      body = \<lparr>eventType = None, eventDateTime = None, eventData = None\<rparr>\<rparr>"

definition unloggable_raw :: string where
  "unloggable_raw =
     ''{'' @ [CHR 0x22] @ ''eventType'' @ [CHR 0x22] @ '':{''
       @ [CHR 0x22] @ ''toString'' @ [CHR 0x22] @ '':1}}''"

definition unloggable_request :: request where
  "unloggable_request =
     \<lparr>header_MCP_Signature = Some ''sha256=12ab'', rawBody = Some unloggable_raw,
      body = \<lparr>eventType = Some (JObject [(''toString'', JNumber ''1'')]),
              eventDateTime = None, eventData = None\<rparr>\<rparr>"

definition sample_message :: slack_message where
  "sample_message =
     \<lparr>fallbackText = ''MCP Event'', message_blocks = JArray [],
      message_attachments = JArray []\<rparr>"

definition sample_formatters :: formatters where
  "sample_formatters =
     \<lparr>common_sections = (\<lambda>evDateTime evData. Inr (JArray [])),
      format_event = (\<lambda>t sections evData. Inr sample_message),
      default_message = (\<lambda>header sections evData. Inr sample_message)\<rparr>"

text \<open>
  Three worlds: both channels work; the webhook answers 500 on every request; the
  persistent session rejects with an API error and the webhook works.
\<close>

definition working_world :: world where
  "working_world =
     \<lparr>chat_postMessage = (\<lambda>args. Inr ()), https_request = (\<lambda>n. HttpResponse 200 ''ok'')\<rparr>"

definition failing_webhook_world :: world where
  "failing_webhook_world =
     \<lparr>chat_postMessage = (\<lambda>args. Inr ()),
      https_request = (\<lambda>n. HttpResponse 500 ''server_error'')\<rparr>"

definition failing_session_world :: world where
  "failing_session_world =
     \<lparr>chat_postMessage = (\<lambda>args. Inl (ErrorObj ''An API error occurred: channel_not_found'')),
      https_request = (\<lambda>n. HttpResponse 200 ''ok'')\<rparr>"

section \<open>Properties of the verifier\<close>

text \<open>
  Decoding the hexadecimal form of a digest gives the digest back, and the hexadecimal
  form is ASCII.
\<close>

lemma unhex_hex_digit: "n < 16 \<Longrightarrow> unhex (hex_digit n) = Some n"
proof -
  assume "n < 16"
  then have "n \<in> set [0..<16]" by simp
  then show ?thesis
    by (simp add: upt_rec unhex_def hex_digit_def) (elim disjE; simp)
qed

lemma unat_byte_div_16: "unat (b :: 8 word) div 16 < 16"
proof -
  have "unat b < 2 ^ LENGTH(8)" by (rule unsigned_less)
  then show ?thesis by simp
qed

lemma Buffer_from_hex_byte:
  "Buffer_from_hex (hex_of_byte b @ rest) = b # Buffer_from_hex rest"
  by (simp add: hex_of_byte_def unhex_hex_digit unat_byte_div_16)

lemma Buffer_from_hex_digest_hex:
  "Buffer_from_hex (digest_hex bs @ rest) = bs @ Buffer_from_hex rest"
  by (induction bs) (simp_all add: digest_hex_def Buffer_from_hex_byte)

lemma Buffer_from_hex_digest:
  "Buffer_from_hex (digest_hex d) = d"
  using Buffer_from_hex_digest_hex [of d "[]"] by simp

lemma strip_sha256_tagged: "strip_sha256 (''sha256='' @ s) = s"
  by (simp add: strip_sha256_def)

lemma expected_buffer:
  "Buffer_from_hex (strip_sha256 (''sha256='' @ digest_hex d)) = d"
  by (simp only: strip_sha256_tagged Buffer_from_hex_digest)

lemma verifySignature_char:
  assumes "payload \<noteq> []" "signature \<noteq> []" "secret \<noteq> []"
  shows "verifySignature hmac payload signature secret
           = Inr (Buffer_from_hex (strip_sha256 signature) = hmac secret payload)"
  using assms expected_buffer [of "hmac secret payload"]
  by (auto simp: verifySignature_def generateSignature_def timingSafeEqual_def Let_def)

lemma hex_digit_ascii: "n < 16 \<Longrightarrow> (of_char (hex_digit n) :: nat) < 128"
proof -
  assume "n < 16"
  then have "n \<in> set [0..<16]" by simp
  then show ?thesis
    by (simp add: upt_rec hex_digit_def) (elim disjE; simp)
qed

lemma length_Buffer_from_digest_hex:
  "length (Buffer_from (digest_hex d)) = 2 * length d"
  by (induction d)
     (simp_all add: Buffer_from_def digest_hex_def hex_of_byte_def utf8_of_char_def
        hex_digit_ascii unat_byte_div_16 Let_def)

lemma length_Buffer_from_expected:
  "length (Buffer_from (''sha256='' @ digest_hex d)) = 7 + 2 * length d"
  using length_Buffer_from_digest_hex [of d]
  by (simp add: Buffer_from_def utf8_of_char_def)

lemma verifySignature_returns:
  "\<exists>b. verifySignature hmac payload signature secret = Inr b"
  by (auto simp: verifySignature_def generateSignature_def timingSafeEqual_def Let_def)

text \<open>
  In utils/verifier, signatures whose decoded lengths differ are rejected by the length
  check, before \<open>timingSafeEqual\<close> is reached.
\<close>

lemma verifySignature_length_mismatch:
  assumes "payload \<noteq> []" "signature \<noteq> []" "secret \<noteq> []"
      and "length (Buffer_from_hex (strip_sha256 signature))
             \<noteq> length (Buffer_from_hex (strip_sha256
                   (''sha256='' @ digest_hex (hmac secret payload))))"
  shows "verifySignature hmac payload signature secret = Inr False"
  using assms
  by (simp add: verifySignature_def generateSignature_def Let_def)

text \<open>
  Claim C6. Round trip: for a non-empty body and a non-empty secret, generateSignature
  returns a signature, and verifySignature accepts that signature for the same body and
  secret.
\<close>

theorem verify_generated_signature:
  assumes "payload \<noteq> []" and "S \<noteq> []"
  shows "\<exists>sig. generateSignature hmac payload S = Inr sig
           \<and> verifySignature hmac payload sig S = Inr True"
  using assms
  by (simp add: verifySignature_def generateSignature_def timingSafeEqual_def Let_def)

theorem verify_generated_signature_witness:
  "''{}'' \<noteq> [] \<and> ''key'' \<noteq> []
   \<and> generateSignature sample_hmac ''{}'' ''key'' = Inr ''sha256=12ab''
   \<and> verifySignature sample_hmac ''{}'' ''sha256=12ab'' ''key'' = Inr True"
  using verify_generated_signature [of "''{}''" "''key''" sample_hmac]
  by (simp add: generateSignature_def digest_hex_def hex_of_byte_def hex_digit_def
        sample_hmac_def)

text \<open>
  Claim C7. A signature whose length differs from that of the expected one is to be
  rejected with \<open>false\<close> and without an exception. The verifySignature of the second
  signature module has no length check: when the byte lengths of the received and the
  expected signature strings differ (the expected one has 7 bytes of tag and two per
  byte of digest), \<open>timingSafeEqual\<close> throws. An instance is the received signature
  \<open>sha256=ab\<close>, of one decoded byte, against a digest of 32 bytes; utils/verifier
  rejects it with \<open>false\<close>.
\<close>

theorem verifySignature_part_001_throws:
  assumes "payload \<noteq> []" "signature \<noteq> []" "secret \<noteq> []"
      and "length (Buffer_from signature) \<noteq> 7 + 2 * length (hmac secret payload)"
  shows "verifySignature_part_001 hmac payload signature secret
           = Inl (ErrorObj ''Input buffers must have the same byte length'')"
  using assms length_Buffer_from_expected [of "hmac secret payload"]
  by (simp add: verifySignature_part_001_def timingSafeEqual_def Let_def)

theorem verifySignature_part_001_throws_witness:
  "''{}'' \<noteq> [] \<and> ''sha256=ab'' \<noteq> [] \<and> ''key'' \<noteq> []
   \<and> length (Buffer_from ''sha256=ab'') \<noteq> 7 + 2 * length (zero_hmac ''key'' ''{}'')
   \<and> length (Buffer_from_hex (strip_sha256 ''sha256=ab''))
        \<noteq> length (Buffer_from_hex (strip_sha256
             (''sha256='' @ digest_hex (zero_hmac ''key'' ''{}''))))
   \<and> verifySignature_part_001 zero_hmac ''{}'' ''sha256=ab'' ''key''
        = Inl (ErrorObj ''Input buffers must have the same byte length'')
   \<and> verifySignature zero_hmac ''{}'' ''sha256=ab'' ''key'' = Inr False"
proof -
  have len: "length (Buffer_from ''sha256=ab'') \<noteq> 7 + 2 * length (zero_hmac ''key'' ''{}'')"
    by (simp add: Buffer_from_def utf8_of_char_def zero_hmac_def)
  have dec: "length (Buffer_from_hex (strip_sha256 ''sha256=ab''))
        \<noteq> length (Buffer_from_hex (strip_sha256
             (''sha256='' @ digest_hex (zero_hmac ''key'' ''{}''))))"
    by (simp add: strip_sha256_def unhex_def Buffer_from_hex_digest zero_hmac_def)
  have thr: "verifySignature_part_001 zero_hmac ''{}'' ''sha256=ab'' ''key''
        = Inl (ErrorObj ''Input buffers must have the same byte length'')"
    using verifySignature_part_001_throws [of "''{}''" "''sha256=ab''" "''key''" zero_hmac] len
    by simp
  have ok: "verifySignature zero_hmac ''{}'' ''sha256=ab'' ''key'' = Inr False"
    using dec by (simp add: verifySignature_length_mismatch)
  from len dec thr ok show ?thesis by simp
qed

section \<open>Properties of the route\<close>

lemmas sample_defs =
  sample_hmac_def zero_hmac_def sample_env_def unconfigured_env_def sample_body_def
  signed_request_def badly_signed_request_def unsigned_request_def empty_body_request_def
  empty_unsigned_request_def unloggable_raw_def unloggable_request_def
  sample_message_def sample_formatters_def working_world_def failing_webhook_world_def
  failing_session_world_def

lemmas route_defs =
  post_webhook_def webhook_handler_def try_block_def catch_block_def slack_args_of_def
  sendWebhookMessage_def mcpVerifyMiddleware_def webhook_calls_def postMessage_calls_def
  formatSlackMessage_def formatDefaultMessage_def template_literal_def event_types_def

lemmas verifier_defs =
  verifySignature_def generateSignature_def timingSafeEqual_def strip_sha256_def
  digest_hex_def hex_of_byte_def hex_digit_def unhex_def Let_def

lemma signed_request_valid:
  "verifySignature sample_hmac ''{}'' ''sha256=12ab'' ''key'' = Inr True"
  by (simp add: verifier_defs sample_hmac_def)

lemma badly_signed_request_invalid:
  "verifySignature sample_hmac ''{}'' ''sha256=00'' ''key'' = Inr False"
  by (simp add: verifier_defs sample_hmac_def)

lemma unloggable_request_valid:
  "verifySignature sample_hmac unloggable_raw ''sha256=12ab'' ''key'' = Inr True"
  by (simp add: verifier_defs sample_hmac_def unloggable_raw_def)

lemma render_sample_request:
  "formatSlackMessage sample_formatters (eventType (body signed_request))
      (eventDateTime (body signed_request)) (eventData (body signed_request))
     = Inr sample_message"
  by (simp add: formatSlackMessage_def sample_formatters_def signed_request_def
        sample_body_def event_types_def)

text \<open>
  Whatever \<open>sendWebhookMessage\<close> rejects with, its \<open>message\<close> is not the string the
  \<open>catch\<close> block compares with: the two plain objects have no \<open>message\<close>, and the
  \<open>TypeError\<close> of \<open>url.parse\<close> has another.
\<close>

lemma sendWebhookMessage_rejection:
  assumes "sendWebhookMessage webhookUrl args outcome = Inl e"
  shows "message_of e \<noteq> Some ''webhook fallback already used''"
  using assms
  by (auto simp: sendWebhookMessage_def url_type_error_def
           split: option.splits http_outcome.splits if_splits)

lemma verifySignature_True_nonempty:
  assumes "verifySignature hmac payload signature secret = Inr True"
  shows "payload \<noteq> [] \<and> signature \<noteq> [] \<and> secret \<noteq> []"
  using assms by (auto simp: verifySignature_def)

text \<open>
  When \<open>formatSlackMessage\<close> returns a message, the event type is one that converts to
  a string: it is one of the six strings of the \<open>switch\<close>, or \<open>formatDefaultMessage\<close>
  has converted it.
\<close>

lemma switch_case_string:
  assumes "switch_case v = Some t"
  shows "v = Some (JString t)"
  using assms by (cases v rule: switch_case.cases) (auto split: if_splits)

lemma formatSlackMessage_converts:
  assumes "formatSlackMessage fmt evType evDateTime evData = Inr message"
  shows "\<exists>logged. template_literal evType = Inr logged"
proof (cases "switch_case evType")
  case (Some t)
  then have "evType = Some (JString t)" by (rule switch_case_string)
  then show ?thesis by (simp add: template_literal_def)
next
  case None
  with assms show ?thesis
    by (auto simp: formatSlackMessage_def formatDefaultMessage_def split: sum.splits)
qed

lemma handler_responds_first:
  assumes "template_literal (eventType (body req)) = Inr logged"
  shows "\<exists>deliveries. webhook_handler fmt w env socketModeConnected req =
       Respond 200 ''Webhook received'' # deliveries
     \<and> filter is_Respond deliveries = []
     \<and> list_all (\<lambda>e. is_PostMessage e \<or> is_SendWebhook e) deliveries"
  using assms
  by (auto simp: webhook_handler_def try_block_def catch_block_def Let_def
           split: sum.splits)

lemma middleware_admits:
  assumes "MCP_WEBHOOK_SIGNING_SECRET env = Some secret"
      and "header_MCP_Signature req = Some signatureHeader"
      and "rawBody req = Some raw"
      and "verifySignature hmac raw signatureHeader secret = Inr True"
  shows "mcpVerifyMiddleware hmac env req = Next"
  using assms verifySignature_True_nonempty [OF assms(4)]
  by (simp add: mcpVerifyMiddleware_def)

text \<open>The middleware never lets an exception escape.\<close>

lemma middleware_never_throws: "mcpVerifyMiddleware hmac env req \<noteq> Threw e"
proof -
  have "\<And>raw sig secret. verifySignature hmac raw sig secret \<noteq> Inl e"
    using verifySignature_returns by (metis sum.distinct(1))
  then show ?thesis
    by (auto simp: mcpVerifyMiddleware_def split: option.splits sum.splits)
qed

text \<open>
  The capture callback stores the decoded bytes of a non-empty buffer.
\<close>

lemma capture_nonempty:
  "rawBody (getExpressVerifyCallback sample_toString empty_body_request [0x7B, 0x7D] None)
     = Some ''{}''"
  by code_simp

subsection \<open>The delivery router\<close>

text \<open>
  Claim C1. The webhook is to be invoked at most once for one event. In the handler,
  when the flag is false the first attempt is the webhook; when that call is rejected,
  the \<open>catch\<close> block runs, its comparison of the message holds for every rejection of
  \<open>sendWebhookMessage\<close>, and the webhook is invoked a second time: for every world in
  which the first webhook call fails, the handler responds and then calls the webhook
  twice.
\<close>

theorem webhook_invoked_twice_when_disconnected:
  assumes "formatSlackMessage fmt (eventType (body req)) (eventDateTime (body req))
             (eventData (body req)) = Inr message"
      and "sendWebhookMessage (SLACK_WEBHOOK_URL env) (slack_args_of env message)
             (https_request w 0) = Inl e"
  shows "webhook_handler fmt w env False req =
           [Respond 200 ''Webhook received'',
            SendWebhook (SLACK_WEBHOOK_URL env) (slack_args_of env message),
            SendWebhook (SLACK_WEBHOOK_URL env) (slack_args_of env message)]"
proof -
  obtain logged where logged: "template_literal (eventType (body req)) = Inr logged"
    using formatSlackMessage_converts [OF assms(1)] by blast
  have guard: "message_of e \<noteq> Some ''webhook fallback already used''"
    using assms(2) by (rule sendWebhookMessage_rejection)
  have tried: "try_block w env False (slack_args_of env message) =
      ([SendWebhook (SLACK_WEBHOOK_URL env) (slack_args_of env message)], Inl e)"
    using assms(2) by (simp add: try_block_def)
  have caught: "catch_block w env 1 (slack_args_of env message) e =
      [SendWebhook (SLACK_WEBHOOK_URL env) (slack_args_of env message)]"
    using guard by (simp add: catch_block_def split: sum.splits)
  show ?thesis
    using logged assms(1) tried caught by (simp add: webhook_handler_def Let_def)
qed

theorem webhook_invoked_twice_when_disconnected_witness:
  "formatSlackMessage sample_formatters (eventType (body signed_request))
      (eventDateTime (body signed_request)) (eventData (body signed_request))
     = Inr sample_message
   \<and> sendWebhookMessage (SLACK_WEBHOOK_URL sample_env) (slack_args_of sample_env sample_message)
        (https_request failing_webhook_world 0) = Inl (HttpStatusReject 500 ''server_error'')
   \<and> webhook_calls (webhook_handler sample_formatters failing_webhook_world sample_env False
        signed_request) = 2
   \<and> postMessage_calls (webhook_handler sample_formatters failing_webhook_world sample_env
        False signed_request) = 0"
proof -
  note r = render_sample_request
  have s: "sendWebhookMessage (SLACK_WEBHOOK_URL sample_env)
      (slack_args_of sample_env sample_message)
      (https_request failing_webhook_world 0) = Inl (HttpStatusReject 500 ''server_error'')"
    by (simp add: sendWebhookMessage_def sample_env_def failing_webhook_world_def)
  show ?thesis
    using r s webhook_invoked_twice_when_disconnected
      [where fmt = sample_formatters and req = signed_request
         and message = sample_message and env = sample_env and w = failing_webhook_world
         and e = "HttpStatusReject 500 ''server_error''"]
    by (simp add: webhook_calls_def postMessage_calls_def)
qed

text \<open>
  Claim C2. When the flag is true and \<open>chat.postMessage\<close> throws, the handler
  afterwards invokes the webhook exactly once: it responds, calls the persistent
  session, calls the webhook, and does nothing more, whatever the webhook call comes
  to. The \<open>catch\<close> block compares the message of the error with the string
  \<open>webhook fallback already used\<close>, which occurs nowhere else and which nothing
  throws; the third hypothesis excludes that message and no other error.
\<close>

theorem fallback_once_after_session_failure:
  assumes "formatSlackMessage fmt (eventType (body req)) (eventDateTime (body req))
             (eventData (body req)) = Inr message"
      and "chat_postMessage w (slack_args_of env message) = Inl slackError"
      and "message_of slackError \<noteq> Some ''webhook fallback already used''"
  shows "webhook_handler fmt w env True req =
           [Respond 200 ''Webhook received'',
            PostMessage (slack_args_of env message),
            SendWebhook (SLACK_WEBHOOK_URL env) (slack_args_of env message)]
         \<and> webhook_calls (webhook_handler fmt w env True req) = 1"
proof -
  obtain logged where logged: "template_literal (eventType (body req)) = Inr logged"
    using formatSlackMessage_converts [OF assms(1)] by blast
  have tried: "try_block w env True (slack_args_of env message) =
      ([PostMessage (slack_args_of env message)], Inl slackError)"
    using assms(2) by (simp add: try_block_def)
  have caught: "catch_block w env 0 (slack_args_of env message) slackError =
      [SendWebhook (SLACK_WEBHOOK_URL env) (slack_args_of env message)]"
    using assms(3) by (simp add: catch_block_def split: sum.splits)
  show ?thesis
    using logged assms(1) tried caught
    by (simp add: webhook_handler_def webhook_calls_def Let_def)
qed

theorem fallback_once_after_session_failure_witness:
  "formatSlackMessage sample_formatters (eventType (body signed_request))
      (eventDateTime (body signed_request)) (eventData (body signed_request))
     = Inr sample_message
   \<and> chat_postMessage failing_session_world (slack_args_of sample_env sample_message)
        = Inl (ErrorObj ''An API error occurred: channel_not_found'')
   \<and> message_of (ErrorObj ''An API error occurred: channel_not_found'')
        \<noteq> Some ''webhook fallback already used''
   \<and> webhook_calls (webhook_handler sample_formatters failing_session_world sample_env True
        signed_request) = 1"
proof -
  note r = render_sample_request
  have p: "chat_postMessage failing_session_world (slack_args_of sample_env sample_message)
        = Inl (ErrorObj ''An API error occurred: channel_not_found'')"
    by (simp add: failing_session_world_def)
  have m: "message_of (ErrorObj ''An API error occurred: channel_not_found'')
        \<noteq> Some ''webhook fallback already used''"
    by simp
  show ?thesis
    using r p m fallback_once_after_session_failure
      [where fmt = sample_formatters and req = signed_request
         and message = sample_message and env = sample_env and w = failing_session_world
         and slackError = "ErrorObj ''An API error occurred: channel_not_found''"]
    by (simp add: webhook_calls_def)
qed

text \<open>
  Claim C3. When the flag is false at the start of a delivery, the handler never calls
  the persistent session, and the first thing it does after responding is to call the
  webhook.
\<close>

theorem disconnected_goes_to_webhook:
  assumes "formatSlackMessage fmt (eventType (body req)) (eventDateTime (body req))
             (eventData (body req)) = Inr message"
  shows "postMessage_calls (webhook_handler fmt w env False req) = 0
         \<and> (\<exists>rest. webhook_handler fmt w env False req =
               Respond 200 ''Webhook received''
                 # SendWebhook (SLACK_WEBHOOK_URL env) (slack_args_of env message) # rest)"
proof -
  obtain logged where logged: "template_literal (eventType (body req)) = Inr logged"
    using formatSlackMessage_converts [OF assms] by blast
  show ?thesis
    using logged assms
    by (auto simp: webhook_handler_def try_block_def catch_block_def postMessage_calls_def
             Let_def split: sum.splits)
qed

theorem disconnected_goes_to_webhook_witness:
  "formatSlackMessage sample_formatters (eventType (body signed_request))
      (eventDateTime (body signed_request)) (eventData (body signed_request))
     = Inr sample_message
   \<and> postMessage_calls (webhook_handler sample_formatters working_world sample_env False
        signed_request) = 0
   \<and> webhook_handler sample_formatters working_world sample_env False signed_request =
        [Respond 200 ''Webhook received'',
         SendWebhook (SLACK_WEBHOOK_URL sample_env) (slack_args_of sample_env sample_message)]"
proof -
  note r = render_sample_request
  have t: "webhook_handler sample_formatters working_world sample_env False signed_request =
        [Respond 200 ''Webhook received'',
         SendWebhook (SLACK_WEBHOOK_URL sample_env) (slack_args_of sample_env sample_message)]"
    by (simp add: route_defs sample_defs)
  show ?thesis
    using r t disconnected_goes_to_webhook
      [where fmt = sample_formatters and req = signed_request
         and message = sample_message and env = sample_env and w = working_world]
    by simp
qed

subsection \<open>Acknowledgment and response codes\<close>

text \<open>
  For a request whose signature verifies and whose event type converts to a string,
  the first thing the route does is to send the response 200; every call of a delivery
  channel comes after it, no other response is sent, and this holds whatever the
  channels do.
\<close>

lemma acknowledgment_precedes_delivery:
  assumes "MCP_WEBHOOK_SIGNING_SECRET env = Some secret"
      and "header_MCP_Signature req = Some signatureHeader"
      and "rawBody req = Some raw"
      and "verifySignature hmac raw signatureHeader secret = Inr True"
      and "template_literal (eventType (body req)) = Inr logged"
  shows "\<exists>deliveries.
           post_webhook hmac fmt w env socketModeConnected req =
             Respond 200 ''Webhook received'' # deliveries
         \<and> filter is_Respond deliveries = []
         \<and> list_all (\<lambda>e. is_PostMessage e \<or> is_SendWebhook e) deliveries"
  using middleware_admits [OF assms(1-4)] handler_responds_first [OF assms(5)]
  by (simp add: post_webhook_def)

text \<open>
  Claim C5. Every request whose signature verifies is to be answered 200 before
  delivery begins. The handler logs the event type through a template literal before
  it responds: for a correctly signed request whose event type does not convert to a
  string the conversion throws, the outer \<open>catch\<close> only logs, and the route sends no
  response at all. An instance is the body \<open>{"eventType":{"toString":1}}\<close>.
\<close>

theorem no_response_when_event_type_unconvertible:
  assumes "MCP_WEBHOOK_SIGNING_SECRET env = Some secret"
      and "header_MCP_Signature req = Some signatureHeader"
      and "rawBody req = Some raw"
      and "verifySignature hmac raw signatureHeader secret = Inr True"
      and "template_literal (eventType (body req)) = Inl e"
  shows "post_webhook hmac fmt w env socketModeConnected req = []"
  using middleware_admits [OF assms(1-4)] assms(5)
  by (simp add: post_webhook_def webhook_handler_def)

theorem no_response_when_event_type_unconvertible_witness:
  "MCP_WEBHOOK_SIGNING_SECRET sample_env = Some ''key''
   \<and> header_MCP_Signature unloggable_request = Some ''sha256=12ab''
   \<and> rawBody unloggable_request = Some unloggable_raw
   \<and> verifySignature sample_hmac unloggable_raw ''sha256=12ab'' ''key'' = Inr True
   \<and> template_literal (eventType (body unloggable_request))
        = Inl (ErrorObj ''Cannot convert object to primitive value'')
   \<and> post_webhook sample_hmac sample_formatters working_world sample_env True
        unloggable_request = []
   \<and> filter is_Respond (post_webhook sample_hmac sample_formatters working_world sample_env
        True unloggable_request) = []"
proof -
  have s: "MCP_WEBHOOK_SIGNING_SECRET sample_env = Some ''key''"
    by (simp add: sample_env_def)
  have h: "header_MCP_Signature unloggable_request = Some ''sha256=12ab''"
    by (simp add: unloggable_request_def)
  have b: "rawBody unloggable_request = Some unloggable_raw"
    by (simp add: unloggable_request_def)
  note v = unloggable_request_valid
  have t: "template_literal (eventType (body unloggable_request))
        = Inl (ErrorObj ''Cannot convert object to primitive value'')"
    by (simp add: template_literal_def unloggable_request_def)
  from s h b v t
    no_response_when_event_type_unconvertible
      [OF s h b v t, of sample_formatters working_world True]
  show ?thesis by simp
qed

text \<open>
  Claim C8, as amended. The response is 500 when the signing secret is not configured;
  otherwise 400 when the signature header is missing; otherwise 500 when no raw body
  was captured; otherwise 401 when the signature does not verify; and, for an event
  whose type converts to a string, 200, sent first and once, when it verifies. In the
  400, 401 and 500 cases the response is all the route does: no delivery is attempted.
\<close>

theorem webhook_response_cases:
  "(\<not> truthy (MCP_WEBHOOK_SIGNING_SECRET env) \<longrightarrow>
      post_webhook hmac fmt w env socketModeConnected req
        = [Respond 500 ''Webhook signing secret not configured.''])
   \<and> (truthy (MCP_WEBHOOK_SIGNING_SECRET env) \<and> \<not> truthy (header_MCP_Signature req) \<longrightarrow>
      post_webhook hmac fmt w env socketModeConnected req
        = [Respond 400 ''Missing signature header.''])
   \<and> (truthy (MCP_WEBHOOK_SIGNING_SECRET env) \<and> truthy (header_MCP_Signature req)
        \<and> \<not> truthy (rawBody req) \<longrightarrow>
      post_webhook hmac fmt w env socketModeConnected req
        = [Respond 500 ''Raw request body not available for verification.''])
   \<and> (MCP_WEBHOOK_SIGNING_SECRET env = Some secret \<and> secret \<noteq> []
        \<and> header_MCP_Signature req = Some signatureHeader \<and> signatureHeader \<noteq> []
        \<and> rawBody req = Some raw \<and> raw \<noteq> []
        \<and> verifySignature hmac raw signatureHeader secret = Inr False \<longrightarrow>
      post_webhook hmac fmt w env socketModeConnected req
        = [Respond 401 ''Invalid signature.''])
   \<and> (MCP_WEBHOOK_SIGNING_SECRET env = Some secret
        \<and> header_MCP_Signature req = Some signatureHeader
        \<and> rawBody req = Some raw
        \<and> verifySignature hmac raw signatureHeader secret = Inr True
        \<and> template_literal (eventType (body req)) = Inr logged \<longrightarrow>
      (\<exists>deliveries.
         post_webhook hmac fmt w env socketModeConnected req
           = Respond 200 ''Webhook received'' # deliveries
         \<and> filter is_Respond deliveries = []))"
proof (intro conjI impI)
  assume "\<not> truthy (MCP_WEBHOOK_SIGNING_SECRET env)"
  then show "post_webhook hmac fmt w env socketModeConnected req
        = [Respond 500 ''Webhook signing secret not configured.'']"
    by (simp add: post_webhook_def mcpVerifyMiddleware_def truthy_def split: option.splits)
next
  assume "truthy (MCP_WEBHOOK_SIGNING_SECRET env) \<and> \<not> truthy (header_MCP_Signature req)"
  then show "post_webhook hmac fmt w env socketModeConnected req
        = [Respond 400 ''Missing signature header.'']"
    by (simp add: post_webhook_def mcpVerifyMiddleware_def truthy_def split: option.splits)
next
  assume "truthy (MCP_WEBHOOK_SIGNING_SECRET env) \<and> truthy (header_MCP_Signature req)
        \<and> \<not> truthy (rawBody req)"
  then show "post_webhook hmac fmt w env socketModeConnected req
        = [Respond 500 ''Raw request body not available for verification.'']"
    by (simp add: post_webhook_def mcpVerifyMiddleware_def truthy_def split: option.splits)
next
  assume "MCP_WEBHOOK_SIGNING_SECRET env = Some secret \<and> secret \<noteq> []
        \<and> header_MCP_Signature req = Some signatureHeader \<and> signatureHeader \<noteq> []
        \<and> rawBody req = Some raw \<and> raw \<noteq> []
        \<and> verifySignature hmac raw signatureHeader secret = Inr False"
  then show "post_webhook hmac fmt w env socketModeConnected req
        = [Respond 401 ''Invalid signature.'']"
    by (simp add: post_webhook_def mcpVerifyMiddleware_def)
next
  assume a: "MCP_WEBHOOK_SIGNING_SECRET env = Some secret
        \<and> header_MCP_Signature req = Some signatureHeader
        \<and> rawBody req = Some raw
        \<and> verifySignature hmac raw signatureHeader secret = Inr True
        \<and> template_literal (eventType (body req)) = Inr logged"
  then have "mcpVerifyMiddleware hmac env req = Next"
    by (simp add: middleware_admits)
  moreover from a have "template_literal (eventType (body req)) = Inr logged"
    by simp
  ultimately show "\<exists>deliveries.
         post_webhook hmac fmt w env socketModeConnected req
           = Respond 200 ''Webhook received'' # deliveries
         \<and> filter is_Respond deliveries = []"
    using handler_responds_first [of req logged fmt w env socketModeConnected]
    by (auto simp: post_webhook_def)
qed

theorem webhook_response_cases_witness:
  "\<not> truthy (MCP_WEBHOOK_SIGNING_SECRET unconfigured_env)
   \<and> post_webhook sample_hmac sample_formatters working_world unconfigured_env True
        signed_request
        = [Respond 500 ''Webhook signing secret not configured.'']
   \<and> truthy (MCP_WEBHOOK_SIGNING_SECRET sample_env)
   \<and> \<not> truthy (header_MCP_Signature unsigned_request)
   \<and> post_webhook sample_hmac sample_formatters working_world sample_env True unsigned_request
        = [Respond 400 ''Missing signature header.'']
   \<and> truthy (header_MCP_Signature empty_body_request)
   \<and> \<not> truthy (rawBody empty_body_request)
   \<and> post_webhook sample_hmac sample_formatters working_world sample_env True
        empty_body_request
        = [Respond 500 ''Raw request body not available for verification.'']
   \<and> verifySignature sample_hmac ''{}'' ''sha256=00'' ''key'' = Inr False
   \<and> post_webhook sample_hmac sample_formatters working_world sample_env True
        badly_signed_request
        = [Respond 401 ''Invalid signature.'']
   \<and> verifySignature sample_hmac ''{}'' ''sha256=12ab'' ''key'' = Inr True
   \<and> template_literal (eventType (body signed_request)) = Inr ''carrier.packet.completed''
   \<and> hd (post_webhook sample_hmac sample_formatters working_world sample_env True
           signed_request)
        = Respond 200 ''Webhook received''
   \<and> filter is_Respond
        (tl (post_webhook sample_hmac sample_formatters working_world sample_env True
               signed_request))
        = []"
proof -
  have c1: "\<not> truthy (MCP_WEBHOOK_SIGNING_SECRET unconfigured_env)"
    by (simp add: truthy_def unconfigured_env_def)
  have c2: "truthy (MCP_WEBHOOK_SIGNING_SECRET sample_env)
      \<and> \<not> truthy (header_MCP_Signature unsigned_request)"
    by (simp add: truthy_def sample_env_def unsigned_request_def)
  have c3: "truthy (MCP_WEBHOOK_SIGNING_SECRET sample_env)
      \<and> truthy (header_MCP_Signature empty_body_request)
      \<and> \<not> truthy (rawBody empty_body_request)"
    by (simp add: truthy_def sample_env_def empty_body_request_def)
  have c4: "MCP_WEBHOOK_SIGNING_SECRET sample_env = Some ''key'' \<and> ''key'' \<noteq> []
      \<and> header_MCP_Signature badly_signed_request = Some ''sha256=00'' \<and> ''sha256=00'' \<noteq> []
      \<and> rawBody badly_signed_request = Some ''{}'' \<and> ''{}'' \<noteq> []
      \<and> verifySignature sample_hmac ''{}'' ''sha256=00'' ''key'' = Inr False"
    by (simp add: sample_env_def badly_signed_request_def badly_signed_request_invalid)
  have c5: "MCP_WEBHOOK_SIGNING_SECRET sample_env = Some ''key''
      \<and> header_MCP_Signature signed_request = Some ''sha256=12ab''
      \<and> rawBody signed_request = Some ''{}''
      \<and> verifySignature sample_hmac ''{}'' ''sha256=12ab'' ''key'' = Inr True
      \<and> template_literal (eventType (body signed_request)) = Inr ''carrier.packet.completed''"
    by (simp add: sample_env_def signed_request_def signed_request_valid sample_body_def
          template_literal_def)
  have r1: "post_webhook sample_hmac sample_formatters working_world unconfigured_env True
        signed_request = [Respond 500 ''Webhook signing secret not configured.'']"
    using c1 webhook_response_cases
      [where env = unconfigured_env and hmac = sample_hmac
         and fmt = sample_formatters and w = working_world
         and socketModeConnected = True and req = signed_request]
    by blast
  have r2: "post_webhook sample_hmac sample_formatters working_world sample_env True
        unsigned_request = [Respond 400 ''Missing signature header.'']"
    using c2 webhook_response_cases
      [where env = sample_env and hmac = sample_hmac
         and fmt = sample_formatters and w = working_world
         and socketModeConnected = True and req = unsigned_request]
    by blast
  have r3: "post_webhook sample_hmac sample_formatters working_world sample_env True
        empty_body_request = [Respond 500 ''Raw request body not available for verification.'']"
    using c3 webhook_response_cases
      [where env = sample_env and hmac = sample_hmac
         and fmt = sample_formatters and w = working_world
         and socketModeConnected = True and req = empty_body_request]
    by blast
  have r4: "post_webhook sample_hmac sample_formatters working_world sample_env True
        badly_signed_request = [Respond 401 ''Invalid signature.'']"
    using c4 webhook_response_cases
      [where env = sample_env and hmac = sample_hmac
         and fmt = sample_formatters and w = working_world
         and socketModeConnected = True and req = badly_signed_request
         and secret = "''key''" and signatureHeader = "''sha256=00''" and raw = "''{}''"]
    by blast
  have "\<exists>deliveries.
      post_webhook sample_hmac sample_formatters working_world sample_env True signed_request
        = Respond 200 ''Webhook received'' # deliveries
      \<and> filter is_Respond deliveries = []"
    using c5 webhook_response_cases
      [where env = sample_env and hmac = sample_hmac
         and fmt = sample_formatters and w = working_world
         and socketModeConnected = True and req = signed_request
         and secret = "''key''" and signatureHeader = "''sha256=12ab''" and raw = "''{}''"
         and logged = "''carrier.packet.completed''"]
    by blast
  then have r5: "hd (post_webhook sample_hmac sample_formatters working_world sample_env True
        signed_request) = Respond 200 ''Webhook received''
      \<and> filter is_Respond (tl (post_webhook sample_hmac sample_formatters working_world
           sample_env True signed_request)) = []"
    by auto
  from c1 c2 c3 c4 c5 r1 r2 r3 r4 r5 show ?thesis by simp
qed

text \<open>
  Claim C8 as stated fails: with the secret configured, the header present and no raw
  body captured, the signature does not verify, and the response is 500, not 401.
\<close>

theorem invalid_signature_empty_body_counterexample:
  "truthy (MCP_WEBHOOK_SIGNING_SECRET sample_env)
   \<and> truthy (header_MCP_Signature empty_body_request)
   \<and> verifySignature sample_hmac [] ''sha256=00'' ''key'' = Inr False
   \<and> post_webhook sample_hmac sample_formatters working_world sample_env True
        empty_body_request
        = [Respond 500 ''Raw request body not available for verification.'']
   \<and> post_webhook sample_hmac sample_formatters working_world sample_env True
        empty_body_request
        \<noteq> [Respond 401 ''Invalid signature.'']"
  by (simp add: truthy_def sample_env_def empty_body_request_def verifySignature_def
        post_webhook_def mcpVerifyMiddleware_def)

text \<open>
  Claim C10, as amended. For a request with an empty body the capture callback leaves
  \<open>req.rawBody\<close> unset. When the signing secret is configured and a signature header is
  present, the response is 500 with the text of the missing raw body. When the secret
  is not configured the response is 500 with the text of the missing secret, and when
  the secret is configured and the header is missing it is 400. In each case the
  response is all the route does.
\<close>

theorem empty_body_rejected:
  assumes "rawBody req = None"
  shows "rawBody (getExpressVerifyCallback toString req [] encoding) = None
         \<and> (truthy (MCP_WEBHOOK_SIGNING_SECRET env) \<and> truthy (header_MCP_Signature req) \<longrightarrow>
              post_webhook hmac fmt w env socketModeConnected
                  (getExpressVerifyCallback toString req [] encoding)
                = [Respond 500 ''Raw request body not available for verification.''])
         \<and> (\<not> truthy (MCP_WEBHOOK_SIGNING_SECRET env) \<longrightarrow>
              post_webhook hmac fmt w env socketModeConnected
                  (getExpressVerifyCallback toString req [] encoding)
                = [Respond 500 ''Webhook signing secret not configured.''])
         \<and> (truthy (MCP_WEBHOOK_SIGNING_SECRET env) \<and> \<not> truthy (header_MCP_Signature req)
              \<longrightarrow>
              post_webhook hmac fmt w env socketModeConnected
                  (getExpressVerifyCallback toString req [] encoding)
                = [Respond 400 ''Missing signature header.''])"
  using assms
  by (auto simp: getExpressVerifyCallback_def post_webhook_def mcpVerifyMiddleware_def
        truthy_def split: option.splits)

theorem empty_body_rejected_witness:
  "rawBody empty_body_request = None
   \<and> truthy (MCP_WEBHOOK_SIGNING_SECRET sample_env)
   \<and> truthy (header_MCP_Signature empty_body_request)
   \<and> post_webhook sample_hmac sample_formatters working_world sample_env True
         (getExpressVerifyCallback sample_toString empty_body_request [] None)
       = [Respond 500 ''Raw request body not available for verification.'']
   \<and> \<not> truthy (MCP_WEBHOOK_SIGNING_SECRET unconfigured_env)
   \<and> post_webhook sample_hmac sample_formatters working_world unconfigured_env True
         (getExpressVerifyCallback sample_toString empty_body_request [] None)
       = [Respond 500 ''Webhook signing secret not configured.'']
   \<and> rawBody empty_unsigned_request = None
   \<and> \<not> truthy (header_MCP_Signature empty_unsigned_request)
   \<and> post_webhook sample_hmac sample_formatters working_world sample_env True
         (getExpressVerifyCallback sample_toString empty_unsigned_request [] None)
       = [Respond 400 ''Missing signature header.'']"
proof -
  have s: "truthy (MCP_WEBHOOK_SIGNING_SECRET sample_env)"
    by (simp add: truthy_def sample_env_def)
  have u: "\<not> truthy (MCP_WEBHOOK_SIGNING_SECRET unconfigured_env)"
    by (simp add: truthy_def unconfigured_env_def)
  have h: "truthy (header_MCP_Signature empty_body_request)"
    by (simp add: truthy_def empty_body_request_def)
  have n: "\<not> truthy (header_MCP_Signature empty_unsigned_request)"
    by (simp add: truthy_def empty_unsigned_request_def)
  have b: "rawBody empty_body_request = None"
    by (simp add: empty_body_request_def)
  have b': "rawBody empty_unsigned_request = None"
    by (simp add: empty_unsigned_request_def)
  from s u h n b b'
    empty_body_rejected [OF b, of sample_toString None sample_env sample_hmac
      sample_formatters working_world True]
    empty_body_rejected [OF b, of sample_toString None unconfigured_env sample_hmac
      sample_formatters working_world True]
    empty_body_rejected [OF b', of sample_toString None sample_env sample_hmac
      sample_formatters working_world True]
  show ?thesis by simp
qed

text \<open>
  Claim C10 as stated fails: an empty body is not always answered with the 500 of the
  missing raw body. With the secret configured and no signature header, the header
  check comes first and the response is 400.
\<close>

theorem empty_body_without_header_counterexample:
  "rawBody (getExpressVerifyCallback sample_toString empty_unsigned_request [] None) = None
   \<and> truthy (MCP_WEBHOOK_SIGNING_SECRET sample_env)
   \<and> post_webhook sample_hmac sample_formatters working_world sample_env True
         (getExpressVerifyCallback sample_toString empty_unsigned_request [] None)
       = [Respond 400 ''Missing signature header.'']
   \<and> post_webhook sample_hmac sample_formatters working_world sample_env True
         (getExpressVerifyCallback sample_toString empty_unsigned_request [] None)
       \<noteq> [Respond 500 ''Raw request body not available for verification.'']"
  by (simp add: getExpressVerifyCallback_def truthy_def sample_env_def
        empty_unsigned_request_def post_webhook_def mcpVerifyMiddleware_def)

section \<open>Properties of the connectivity flag\<close>

lemma foldl_on_signal_Exited: "foldl on_signal (Exited code) sigs = Exited code"
  by (induction sigs) simp_all

lemma run_signals_snoc: "run_signals (sigs @ [s]) = on_signal (run_signals sigs) s"
  by (simp add: run_signals_def)

lemma run_signals_Running:
  "run_signals sigs = Running c \<Longrightarrow>
     c = (sigs \<noteq> [] \<and> last sigs \<in> {Authenticated, StartResolved})"
proof (induction sigs arbitrary: c rule: rev_induct)
  case Nil
  then show ?case by (simp add: run_signals_def initial_state_def)
next
  case (snoc s sigs)
  then have step: "on_signal (run_signals sigs) s = Running c"
    by (simp add: run_signals_snoc)
  then show ?case
    by (cases "run_signals sigs"; cases s) auto
qed

lemma run_signals_not_connected:
  assumes "Authenticated \<notin> set sigs" and "StartResolved \<notin> set sigs"
  shows "run_signals sigs \<noteq> Running True"
proof
  assume "run_signals sigs = Running True"
  then have "sigs \<noteq> [] \<and> last sigs \<in> {Authenticated, StartResolved}"
    using run_signals_Running by blast
  then have "last sigs \<in> set sigs" "last sigs \<in> {Authenticated, StartResolved}"
    by simp_all
  with assms show False by auto
qed

text \<open>
  Claim C4, as amended. The flag starts false; the error handler and the signals
  connecting, disconnecting and reconnecting set it false; the signal authenticated and
  the completion of \<open>slackApp.start()\<close> set it true. So, while the process runs, the flag
  is true exactly when the last of these events was authenticated or the completion of
  the start, and it is not true before the first of the two.
\<close>

theorem connectivity_flag:
  "initial_state = Running False
   \<and> on_signal (Running b) ErrorHandler = Running False
   \<and> on_signal (Running b) Connecting = Running False
   \<and> on_signal (Running b) Disconnecting = Running False
   \<and> on_signal (Running b) Reconnecting = Running False
   \<and> on_signal (Running b) Authenticated = Running True
   \<and> on_signal (Running b) StartResolved = Running True
   \<and> (run_signals sigs = Running c \<longrightarrow>
        c = (sigs \<noteq> [] \<and> last sigs \<in> {Authenticated, StartResolved}))
   \<and> (Authenticated \<notin> set sigs \<and> StartResolved \<notin> set sigs \<longrightarrow>
        run_signals sigs \<noteq> Running True)"
  using run_signals_Running [of sigs c] run_signals_not_connected [of sigs]
  by (simp add: initial_state_def)

theorem connectivity_flag_witness:
  "run_signals [StartResolved, Disconnecting, Reconnecting, Authenticated] = Running True
   \<and> last [StartResolved, Disconnecting, Reconnecting, Authenticated]
         \<in> {Authenticated, StartResolved}
   \<and> Authenticated \<notin> set [Connecting, ErrorHandler]
   \<and> StartResolved \<notin> set [Connecting, ErrorHandler]
   \<and> run_signals [Connecting, ErrorHandler] \<noteq> Running True"
proof -
  have r: "run_signals [StartResolved, Disconnecting, Reconnecting, Authenticated] = Running True"
    by (simp add: run_signals_def initial_state_def)
  have n: "Authenticated \<notin> set [Connecting, ErrorHandler]
      \<and> StartResolved \<notin> set [Connecting, ErrorHandler]"
    by simp
  from r n
    connectivity_flag [of _ "[StartResolved, Disconnecting, Reconnecting, Authenticated]" True]
    connectivity_flag [of _ "[Connecting, ErrorHandler]" False]
  show ?thesis by simp
qed

text \<open>
  Claim C4 as stated fails: after the signal connecting and the completion of
  \<open>slackApp.start()\<close> the flag is true, and no signal authenticated has arrived.
\<close>

theorem flag_true_without_authenticated_counterexample:
  "Authenticated \<notin> set [Connecting, StartResolved]
   \<and> run_signals [Connecting, StartResolved] = Running True"
  by (simp add: run_signals_def initial_state_def)

end
